theory Spec2Isabelle
  imports Main "HOL-Library.Word"
begin

section \<open>The world around speech.py\<close>

text \<open>
  The program is nine lines of Python:
  \<^verbatim>\<open>
  from gtts import gTTS
  import os

  def speak(text, lang="en", tld=""):
      tts = gTTS(text=text, lang=lang, tld=tld)
      tts.save("__text_output.mp3")
      os.system("ffplay -v 0 -nodisp -autoexit __text_output.mp3")

  if __name__ == "__main__":
      speak(input(), "fr", "fr")
  \<close>
  Everything it does is an effect on the world outside: a file is written, a shell command
  is run, a line is read from standard input. The world is an explicit state that every
  call takes and returns; what the text-to-speech library, the remote service and the
  shell answer is not decided by the program, so it is a parameter (\<open>env\<close>) over which
  every theorem quantifies.
\<close>

type_synonym bytes = "8 word list"

type_synonym filesystem = "string \<Rightarrow> bytes option"

text \<open>The exceptions that the library calls and \<open>input()\<close> can raise.\<close>

datatype exn = AssertionError | ValueError | gTTSError | OSError | EOFError

text \<open>
  A call returns a value, raises an exception, or never returns (the callee blocks for
  ever). Python propagates an exception that no \<open>try\<close> catches; the source has no
  \<open>try\<close>, so every \<open>Raises\<close> of a callee is the caller's result.
\<close>

datatype 'a result = Returns 'a | Raises exn | Hangs

text \<open>The object that \<open>gTTS(text=..., lang=..., tld=...)\<close> builds: the synthesis request.\<close>

record gTTS =
  tts_text :: string
  tts_lang :: string
  tts_tld :: string

text \<open>
  What one call of \<open>tts.save(path)\<close> comes to. The library opens the file for binary
  writing and streams the service's audio into it:
  \<^item> \<open>Saved audio\<close>: the call returns; the file holds exactly \<open>audio\<close>;
  \<^item> \<open>OpenFailed e\<close>: the file could not be opened; nothing is written, \<open>e\<close> is raised;
  \<^item> \<open>WriteFailed part e\<close>: the file was opened (and so emptied) and \<open>part\<close> had been
    written when the request failed; \<open>e\<close> is raised.
\<close>

datatype save_outcome = Saved bytes | OpenFailed exn | WriteFailed bytes exn

text \<open>
  The log of what the outside world saw, oldest first: one \<open>Save\<close> per call of
  \<open>tts.save\<close> with how it ended, \<open>Spawned c\<close> when the shell was handed the command
  line \<open>c\<close>, \<open>Exited s\<close> when that process ended with wait status \<open>s\<close>.
\<close>

datatype event = Save string save_outcome | Spawned string | Exited int

record world =
  files :: filesystem
  events :: "event list"
  stdin :: "string list"

text \<open>
  The environment: which requests the library's constructor refuses (\<open>rejects\<close>,
  \<open>None\<close> when it accepts), how a save of a request to a path ends (\<open>service\<close>), and
  the wait status with which a command line run against a file system ends (\<open>shell\<close>,
  \<open>None\<close> when the process never ends).
\<close>

record env =
  rejects :: "string \<Rightarrow> string \<Rightarrow> string \<Rightarrow> exn option"
  service :: "gTTS \<Rightarrow> string \<Rightarrow> save_outcome"
  shell :: "string \<Rightarrow> filesystem \<Rightarrow> int option"

subsection \<open>The library calls\<close>

text \<open>
  Modelled from the spec: the constructor of the text-to-speech library (package
  \<open>gtts\<close>, not part of the repository). It "constructs a synthesis request with the given
  text, language code, and regional-domain qualifier", or raises for a request it refuses;
  it touches neither the file system nor the player.
\<close>

definition gTTS_init :: "env \<Rightarrow> string \<Rightarrow> string \<Rightarrow> string \<Rightarrow> gTTS result" where
  "gTTS_init env text lang tld =
     (case rejects env text lang tld of
        Some e \<Rightarrow> Raises e
      | None \<Rightarrow> Returns \<lparr>tts_text = text, tts_lang = lang, tts_tld = tld\<rparr>)"

text \<open>
  Modelled from the spec: the library's \<open>save\<close> (not part of the repository), which
  "writes the received audio bytes to a fixed local filename (overwrite semantics)": on
  success the file's content is replaced by the audio, whatever it held before.
\<close>

definition save :: "env \<Rightarrow> gTTS \<Rightarrow> string \<Rightarrow> world \<Rightarrow> unit result \<times> world" where
  "save env tts savefile w =
     (let out = service env tts savefile;
          w' = w\<lparr>events := events w @ [Save savefile out]\<rparr>
      in case out of
           Saved audio \<Rightarrow> (Returns (), w'\<lparr>files := (files w)(savefile \<mapsto> audio)\<rparr>)
         | OpenFailed e \<Rightarrow> (Raises e, w')
         | WriteFailed part e \<Rightarrow> (Raises e, w'\<lparr>files := (files w)(savefile \<mapsto> part)\<rparr>))"

text \<open>
  Modelled from the spec: Python's \<open>os.system\<close> (standard library). It hands the command
  line to the shell and "blocks until the process exits"; its value is the wait status, an
  integer, also when the shell could not find the executable: it does not raise. A process
  that never exits leaves the caller blocked. The player reads the file system and does not
  change it.
\<close>

definition os_system :: "env \<Rightarrow> string \<Rightarrow> world \<Rightarrow> int result \<times> world" where
  "os_system env command w =
     (case shell env command (files w) of
        None \<Rightarrow> (Hangs, w\<lparr>events := events w @ [Spawned command]\<rparr>)
      | Some status \<Rightarrow>
          (Returns status, w\<lparr>events := events w @ [Spawned command, Exited status]\<rparr>))"

text \<open>
  Modelled from the spec: Python's \<open>input()\<close> (builtin), which "reads one line of text
  from standard input" (without its newline) and raises \<open>EOFError\<close> when there is none.
\<close>

definition input :: "world \<Rightarrow> string result \<times> world" where
  "input w =
     (case stdin w of
        [] \<Rightarrow> (Raises EOFError, w)
      | l # ls \<Rightarrow> (Returns l, w\<lparr>stdin := ls\<rparr>))"

section \<open>speech.py\<close>

text \<open>
  \<open>def speak(text, lang="en", tld="")\<close>: an omitted argument (\<open>None\<close> here) takes its
  default. The three statements run in order; a statement that raises or hangs ends the
  call there. The value of \<open>os.system\<close> is dropped, and the function returns \<open>None\<close>.
\<close>

definition lang_or_default :: "string option \<Rightarrow> string" where
  "lang_or_default lang_arg = (case lang_arg of None \<Rightarrow> ''en'' | Some l \<Rightarrow> l)"

definition tld_or_default :: "string option \<Rightarrow> string" where
  "tld_or_default tld_arg = (case tld_arg of None \<Rightarrow> '''' | Some t \<Rightarrow> t)"

definition speak ::
  "env \<Rightarrow> string \<Rightarrow> string option \<Rightarrow> string option \<Rightarrow> world \<Rightarrow> unit result \<times> world" where
  "speak env text lang_arg tld_arg w =
     (let lang = lang_or_default lang_arg;
          tld = tld_or_default tld_arg
      in case gTTS_init env text lang tld of
           Raises e \<Rightarrow> (Raises e, w)
         | Hangs \<Rightarrow> (Hangs, w)
         | Returns tts \<Rightarrow>
             (case save env tts ''__text_output.mp3'' w of
                (Raises e, w1) \<Rightarrow> (Raises e, w1)
              | (Hangs, w1) \<Rightarrow> (Hangs, w1)
              | (Returns _, w1) \<Rightarrow>
                  (case os_system env ''ffplay -v 0 -nodisp -autoexit __text_output.mp3'' w1 of
                     (Raises e, w2) \<Rightarrow> (Raises e, w2)
                   | (Hangs, w2) \<Rightarrow> (Hangs, w2)
                   | (Returns _, w2) \<Rightarrow> (Returns (), w2))))"

text \<open>
  \<open>if __name__ == "__main__": speak(input(), "fr", "fr")\<close>: the argument \<open>input()\<close> is
  evaluated first, then the call.
\<close>

definition main :: "env \<Rightarrow> world \<Rightarrow> unit result \<times> world" where
  "main env w =
     (case input w of
        (Raises e, w1) \<Rightarrow> (Raises e, w1)
      | (Hangs, w1) \<Rightarrow> (Hangs, w1)
      | (Returns line, w1) \<Rightarrow> speak env line (Some ''fr'') (Some ''fr'') w1)"

text \<open>
  The exit code of the interpreter running the script: 0 when the script runs to its end,
  1 when an exception reaches the top level, none while it is blocked.
\<close>

definition exit_code :: "unit result \<Rightarrow> int option" where
  "exit_code r = (case r of Returns _ \<Rightarrow> Some 0 | Raises _ \<Rightarrow> Some 1 | Hangs \<Rightarrow> None)"

subsection \<open>Reading the log and the command line\<close>

text \<open>The command lines handed to the shell, in order.\<close>

fun commands :: "event list \<Rightarrow> string list" where
  "commands [] = []"
| "commands (Spawned c # es) = c # commands es"
| "commands (_ # es) = commands es"

text \<open>The saves in the log, in order: the path and how the save ended.\<close>

fun saves :: "event list \<Rightarrow> (string \<times> save_outcome) list" where
  "saves [] = []"
| "saves (Save p out # es) = (p, out) # saves es"
| "saves (_ # es) = saves es"

text \<open>
  The shell splits a command line without quotes or other special characters into words
  at the blanks; the first word is the executable, the others are its arguments.
\<close>

fun split_blanks :: "string \<Rightarrow> string \<Rightarrow> string list" where
  "split_blanks acc [] = (if acc = [] then [] else [acc])"
| "split_blanks acc (c # cs) =
     (if c = CHR '' '' then (if acc = [] then split_blanks [] cs else acc # split_blanks [] cs)
      else split_blanks (acc @ [c]) cs)"

definition argv :: "string \<Rightarrow> string list" where
  "argv command = split_blanks [] command"

text \<open>The events that a call added to the log: those of \<open>w'\<close> after those of \<open>w\<close>.\<close>

definition new_events :: "world \<Rightarrow> world \<Rightarrow> event list" where
  "new_events w w' = drop (length (events w)) (events w')"

subsection \<open>Sample environments\<close>

text \<open>
  Concrete worlds on which the theorems below are run. The sample library refuses an empty
  text and every language but English and French; the sample service has no host for the
  domain \<open>zz\<close> and answers every other request with four bytes of audio followed by the
  length of the text; the sample shell ends every command with the given status.
\<close>

definition sample_audio :: bytes where
  "sample_audio = [0xFF, 0xF3, 0x44, 0xC4]"

definition sample_rejects :: "string \<Rightarrow> string \<Rightarrow> string \<Rightarrow> exn option" where
  "sample_rejects text lang tld =
     (if text = [] then Some AssertionError
      else if lang = ''en'' \<or> lang = ''fr'' then None
      else Some ValueError)"

definition sample_service :: "gTTS \<Rightarrow> string \<Rightarrow> save_outcome" where
  "sample_service tts savefile =
     (if tts_tld tts = ''zz'' then WriteFailed [] gTTSError
      else Saved (sample_audio @ [of_nat (length (tts_text tts))]))"

definition sample_shell :: "int option \<Rightarrow> string \<Rightarrow> filesystem \<Rightarrow> int option" where
  "sample_shell status command fs = status"

definition sample_env :: "int option \<Rightarrow> env" where
  "sample_env status =
     \<lparr>rejects = sample_rejects, service = sample_service, shell = sample_shell status\<rparr>"

definition sample_world :: "string list \<Rightarrow> world" where
  "sample_world lines = \<lparr>files = Map.empty, events = [], stdin = lines\<rparr>"

text \<open>
  Two more services: one that answers every request successfully with no audio at all, and
  one that cannot be reached, so that every save fails after the file has been opened.
\<close>

definition silent_service :: "gTTS \<Rightarrow> string \<Rightarrow> save_outcome" where
  "silent_service tts savefile = Saved []"

definition silent_env :: env where
  "silent_env =
     \<lparr>rejects = sample_rejects, service = silent_service, shell = sample_shell (Some 0)\<rparr>"

definition offline_service :: "gTTS \<Rightarrow> string \<Rightarrow> save_outcome" where
  "offline_service tts savefile = WriteFailed [] gTTSError"

definition offline_env :: env where
  "offline_env =
     \<lparr>rejects = sample_rejects, service = offline_service, shell = sample_shell (Some 0)\<rparr>"

section \<open>Unfolding one call\<close>

lemma speak_raises_at_init:
  "gTTS_init env text (lang_or_default lang_arg) (tld_or_default tld_arg) = Raises e \<Longrightarrow>
   speak env text lang_arg tld_arg w = (Raises e, w)"
  by (simp add: speak_def)

lemma gTTS_init_never_hangs: "gTTS_init env text lang tld \<noteq> Hangs"
  by (simp add: gTTS_init_def split: option.splits)

lemma save_never_hangs: "fst (save env tts savefile w) \<noteq> Hangs"
  by (simp add: save_def Let_def split: save_outcome.splits)

lemma os_system_never_raises: "fst (os_system env command w) \<noteq> Raises e"
  by (simp add: os_system_def split: option.splits)

text \<open>The five ways a call can go, each with the state it leaves.\<close>

lemma speak_outcomes:
  assumes "speak env text lang_arg tld_arg w = (r, w')"
  obtains
    (init_raises) e where
      "gTTS_init env text (lang_or_default lang_arg) (tld_or_default tld_arg) = Raises e"
      "r = Raises e" "w' = w"
  | (open_fails) tts e where
      "gTTS_init env text (lang_or_default lang_arg) (tld_or_default tld_arg) = Returns tts"
      "service env tts ''__text_output.mp3'' = OpenFailed e"
      "r = Raises e"
      "w' = w\<lparr>events := events w @ [Save ''__text_output.mp3'' (OpenFailed e)]\<rparr>"
  | (write_fails) tts part e where
      "gTTS_init env text (lang_or_default lang_arg) (tld_or_default tld_arg) = Returns tts"
      "service env tts ''__text_output.mp3'' = WriteFailed part e"
      "r = Raises e"
      "w' = w\<lparr>events := events w @ [Save ''__text_output.mp3'' (WriteFailed part e)],
               files := (files w)(''__text_output.mp3'' \<mapsto> part)\<rparr>"
  | (player_hangs) tts audio where
      "gTTS_init env text (lang_or_default lang_arg) (tld_or_default tld_arg) = Returns tts"
      "service env tts ''__text_output.mp3'' = Saved audio"
      "shell env ''ffplay -v 0 -nodisp -autoexit __text_output.mp3''
         ((files w)(''__text_output.mp3'' \<mapsto> audio)) = None"
      "r = Hangs"
      "w' = w\<lparr>events := events w @ [Save ''__text_output.mp3'' (Saved audio),
                 Spawned ''ffplay -v 0 -nodisp -autoexit __text_output.mp3''],
               files := (files w)(''__text_output.mp3'' \<mapsto> audio)\<rparr>"
  | (played) tts audio status where
      "gTTS_init env text (lang_or_default lang_arg) (tld_or_default tld_arg) = Returns tts"
      "service env tts ''__text_output.mp3'' = Saved audio"
      "shell env ''ffplay -v 0 -nodisp -autoexit __text_output.mp3''
         ((files w)(''__text_output.mp3'' \<mapsto> audio)) = Some status"
      "r = Returns ()"
      "w' = w\<lparr>events := events w @ [Save ''__text_output.mp3'' (Saved audio),
                 Spawned ''ffplay -v 0 -nodisp -autoexit __text_output.mp3'', Exited status],
               files := (files w)(''__text_output.mp3'' \<mapsto> audio)\<rparr>"
  using assms gTTS_init_never_hangs [of env "text" "lang_or_default lang_arg" "tld_or_default tld_arg"]
  by (cases "gTTS_init env text (lang_or_default lang_arg) (tld_or_default tld_arg)";
      cases "service env (case gTTS_init env text (lang_or_default lang_arg) (tld_or_default tld_arg) of Returns t \<Rightarrow> t) ''__text_output.mp3''")
     (auto simp: speak_def save_def os_system_def Let_def split: option.splits)

lemma new_events_append [simp]:
  "events w' = events w @ es \<Longrightarrow> new_events w w' = es"
  by (simp add: new_events_def)

lemma commands_append [simp]: "commands (es @ es') = commands es @ commands es'"
  by (induction es rule: commands.induct) simp_all

lemma mem_commands: "c \<in> set (commands es) \<longleftrightarrow> Spawned c \<in> set es"
  by (induction es rule: commands.induct) auto

lemma argv_player:
  "argv ''ffplay -v 0 -nodisp -autoexit __text_output.mp3'' =
     [''ffplay'', ''-v'', ''0'', ''-nodisp'', ''-autoexit'', ''__text_output.mp3'']"
  by (simp add: argv_def)

lemma speak_refused:
  "rejects env text (lang_or_default lang_arg) (tld_or_default tld_arg) = Some e \<Longrightarrow>
   speak env text lang_arg tld_arg w = (Raises e, w)"
  by (simp add: speak_def gTTS_init_def)

lemma speak_accepted_saves_request:
  "rejects env text (lang_or_default lang_arg) (tld_or_default tld_arg) = None \<Longrightarrow>
   \<exists>es. new_events w (snd (speak env text lang_arg tld_arg w)) =
     Save ''__text_output.mp3''
       (service env
          \<lparr>tts_text = text, tts_lang = lang_or_default lang_arg,
           tts_tld = tld_or_default tld_arg\<rparr> ''__text_output.mp3'') # es"
  by (simp add: speak_def gTTS_init_def save_def os_system_def Let_def new_events_def
      split: save_outcome.splits option.splits)

section \<open>The audio file and the player\<close>

text \<open>
  C1 as stated fails. The text \<open>hello\<close> is not empty and the library accepts the pair
  \<open>en\<close>/\<open>com\<close>, but the service answers the request successfully with no audio:
  \<open>speak\<close> writes an empty file and launches the player on it.
\<close>

theorem empty_audio_counterexample:
  "''hello'' \<noteq> []
   \<and> rejects silent_env ''hello'' ''en'' ''com'' = None
   \<and> fst (speak silent_env ''hello'' (Some ''en'') (Some ''com'') (sample_world [])) = Returns ()
   \<and> files (snd (speak silent_env ''hello'' (Some ''en'') (Some ''com'') (sample_world [])))
        ''__text_output.mp3'' = Some []
   \<and> commands (new_events (sample_world [])
        (snd (speak silent_env ''hello'' (Some ''en'') (Some ''com'') (sample_world []))))
     = [''ffplay -v 0 -nodisp -autoexit __text_output.mp3'']"
  by (simp add: speak_def gTTS_init_def save_def os_system_def silent_env_def
      sample_rejects_def silent_service_def sample_shell_def sample_world_def
      lang_or_default_def tld_or_default_def new_events_def)

text \<open>
  C1, amended. For every text and language/domain pair that the library accepts and for
  which the save completes, \<open>speak\<close> writes exactly the audio bytes that the service
  returned to \<open>__text_output.mp3\<close> before the player is invoked: the save returns in a
  state \<open>w1\<close> where the file holds those bytes, the player is run from \<open>w1\<close>, and the
  log of the call starts with the completed save followed by the launch. The file is
  non-empty exactly when the returned audio is.
\<close>

theorem speak_writes_service_audio_before_player:
  assumes "gTTS_init env text (lang_or_default lang_arg) (tld_or_default tld_arg) = Returns tts"
      and "service env tts ''__text_output.mp3'' = Saved audio"
      and "speak env text lang_arg tld_arg w = (r, w')"
  shows "\<exists>w1 rest.
           save env tts ''__text_output.mp3'' w = (Returns (), w1)
         \<and> files w1 ''__text_output.mp3'' = Some audio
         \<and> snd (os_system env ''ffplay -v 0 -nodisp -autoexit __text_output.mp3'' w1) = w'
         \<and> new_events w w' =
             Save ''__text_output.mp3'' (Saved audio)
               # Spawned ''ffplay -v 0 -nodisp -autoexit __text_output.mp3'' # rest
         \<and> files w' ''__text_output.mp3'' = Some audio
         \<and> (files w' ''__text_output.mp3'' = Some [] \<longleftrightarrow> audio = [])"
  using assms(3)
proof (cases rule: speak_outcomes)
  case (player_hangs tts' audio')
  with assms(1,2) show ?thesis
    by (simp add: save_def os_system_def)
next
  case (played tts' audio' status)
  with assms(1,2) show ?thesis
    by (simp add: save_def os_system_def)
qed (use assms(1,2) in simp_all)

theorem speak_writes_service_audio_before_player_witness:
  "gTTS_init (sample_env (Some 0)) ''hello'' (lang_or_default (Some ''en''))
       (tld_or_default (Some ''com''))
     = Returns \<lparr>tts_text = ''hello'', tts_lang = ''en'', tts_tld = ''com''\<rparr>
   \<and> service (sample_env (Some 0))
       \<lparr>tts_text = ''hello'', tts_lang = ''en'', tts_tld = ''com''\<rparr> ''__text_output.mp3''
     = Saved [0xFF, 0xF3, 0x44, 0xC4, 5]
   \<and> files (snd (speak (sample_env (Some 0)) ''hello'' (Some ''en'') (Some ''com'')
         (sample_world []))) ''__text_output.mp3''
     = Some [0xFF, 0xF3, 0x44, 0xC4, 5]"
proof -
  let ?tts = "\<lparr>tts_text = ''hello'', tts_lang = ''en'', tts_tld = ''com''\<rparr>"
  have a: "gTTS_init (sample_env (Some 0)) ''hello'' (lang_or_default (Some ''en''))
             (tld_or_default (Some ''com'')) = Returns ?tts"
    by (simp add: gTTS_init_def sample_env_def sample_rejects_def lang_or_default_def
        tld_or_default_def)
  have b: "service (sample_env (Some 0)) ?tts ''__text_output.mp3''
             = Saved [0xFF, 0xF3, 0x44, 0xC4, 5]"
    by (simp add: sample_env_def sample_service_def sample_audio_def)
  show ?thesis
    using a b speak_writes_service_audio_before_player [OF a b surjective_pairing,
        of "sample_world []"]
    by auto
qed

text \<open>
  C2. In every execution of \<open>speak\<close>, whatever the arguments and the environment: if
  the player was launched during the call, then the save had returned before, in a state
  \<open>w1\<close> where \<open>__text_output.mp3\<close> holds the complete audio of the service, and the
  player was run from that state; in the log the completed save comes first and the launch
  right after it.
\<close>

theorem player_never_before_save_completes:
  assumes "speak env text lang_arg tld_arg w = (r, w')"
      and "Spawned c \<in> set (new_events w w')"
  shows "\<exists>tts audio w1 rest.
           service env tts ''__text_output.mp3'' = Saved audio
         \<and> save env tts ''__text_output.mp3'' w = (Returns (), w1)
         \<and> files w1 ''__text_output.mp3'' = Some audio
         \<and> snd (os_system env ''ffplay -v 0 -nodisp -autoexit __text_output.mp3'' w1) = w'
         \<and> new_events w w' = Save ''__text_output.mp3'' (Saved audio) # Spawned c # rest
         \<and> Spawned c \<notin> set rest"
  using assms(1)
proof (cases rule: speak_outcomes)
  case (player_hangs tts audio)
  with assms(2) show ?thesis
    by (auto simp: save_def os_system_def intro!: exI [of _ tts])
next
  case (played tts audio status)
  with assms(2) show ?thesis
    by (auto simp: save_def os_system_def intro!: exI [of _ tts])
qed (use assms(2) in simp_all)

theorem player_never_before_save_completes_witness:
  "Spawned ''ffplay -v 0 -nodisp -autoexit __text_output.mp3''
     \<in> set (new_events (sample_world [])
         (snd (speak (sample_env (Some 0)) ''hello'' None None (sample_world []))))
   \<and> (\<exists>audio rest.
         new_events (sample_world [])
           (snd (speak (sample_env (Some 0)) ''hello'' None None (sample_world [])))
         = Save ''__text_output.mp3'' (Saved audio)
             # Spawned ''ffplay -v 0 -nodisp -autoexit __text_output.mp3'' # rest)"
proof -
  have a: "Spawned ''ffplay -v 0 -nodisp -autoexit __text_output.mp3''
     \<in> set (new_events (sample_world [])
         (snd (speak (sample_env (Some 0)) ''hello'' None None (sample_world []))))"
    by (simp add: speak_def gTTS_init_def save_def os_system_def sample_env_def
        sample_rejects_def sample_service_def sample_shell_def sample_world_def
        lang_or_default_def tld_or_default_def new_events_def)
  show ?thesis
    using a player_never_before_save_completes [OF surjective_pairing a]
    by blast
qed

text \<open>
  C3 as stated fails: a call in which the library refuses the request launches no player.
  Here the language \<open>xx\<close> is refused, \<open>speak\<close> raises and no command reaches the shell.
\<close>

theorem speak_without_player_counterexample:
  "fst (speak (sample_env (Some 0)) ''hello'' (Some ''xx'') None (sample_world []))
     = Raises ValueError
   \<and> commands (new_events (sample_world [])
        (snd (speak (sample_env (Some 0)) ''hello'' (Some ''xx'') None (sample_world []))))
     = []"
  by (simp add: speak_def gTTS_init_def sample_env_def sample_rejects_def
      lang_or_default_def tld_or_default_def new_events_def)

text \<open>
  C3, amended. A call of \<open>speak\<close> launches the player exactly once when constructing the
  request and saving the audio both complete, and not at all when one of them raises. The
  one command line is \<open>ffplay\<close> with the quiet flag \<open>-v 0\<close>, \<open>-nodisp\<close>, \<open>-autoexit\<close>
  and the output path as its arguments. \<open>speak\<close> returns only after the player has
  exited: when it returns, the exit is the last event of the call, right after the launch;
  when the player never exits, \<open>speak\<close> never returns.
\<close>

theorem speak_launches_player_once_unless_raised:
  assumes "speak env text lang_arg tld_arg w = (r, w')"
  shows "((\<exists>tts audio.
             gTTS_init env text (lang_or_default lang_arg) (tld_or_default tld_arg) = Returns tts
           \<and> service env tts ''__text_output.mp3'' = Saved audio)
          \<longrightarrow> commands (new_events w w') = [''ffplay -v 0 -nodisp -autoexit __text_output.mp3''])
       \<and> ((\<exists>e. r = Raises e) \<longrightarrow> commands (new_events w w') = [])
       \<and> ((\<exists>e. r = Raises e) \<longleftrightarrow>
            \<not> (\<exists>tts audio.
                 gTTS_init env text (lang_or_default lang_arg) (tld_or_default tld_arg) = Returns tts
               \<and> service env tts ''__text_output.mp3'' = Saved audio))
       \<and> argv ''ffplay -v 0 -nodisp -autoexit __text_output.mp3''
           = [''ffplay'', ''-v'', ''0'', ''-nodisp'', ''-autoexit'', ''__text_output.mp3'']
       \<and> (r = Returns () \<longleftrightarrow>
            (\<exists>audio status. new_events w w' =
               [Save ''__text_output.mp3'' (Saved audio),
                Spawned ''ffplay -v 0 -nodisp -autoexit __text_output.mp3'', Exited status]))
       \<and> (r = Hangs \<longleftrightarrow>
            (\<exists>audio. new_events w w' =
               [Save ''__text_output.mp3'' (Saved audio),
                Spawned ''ffplay -v 0 -nodisp -autoexit __text_output.mp3'']
             \<and> shell env ''ffplay -v 0 -nodisp -autoexit __text_output.mp3''
                 ((files w)(''__text_output.mp3'' \<mapsto> audio)) = None))"
  using assms
  by (cases rule: speak_outcomes) (simp_all add: argv_player)

theorem speak_launches_player_once_unless_raised_witness:
  "speak (sample_env (Some 0)) ''hello'' None None (sample_world [])
     = (Returns (),
        \<lparr>files = [''__text_output.mp3'' \<mapsto> [0xFF, 0xF3, 0x44, 0xC4, 5]],
         events = [Save ''__text_output.mp3'' (Saved [0xFF, 0xF3, 0x44, 0xC4, 5]),
                   Spawned ''ffplay -v 0 -nodisp -autoexit __text_output.mp3'', Exited 0],
         stdin = []\<rparr>)
   \<and> commands (new_events (sample_world [])
        (snd (speak (sample_env (Some 0)) ''hello'' None None (sample_world []))))
     = [''ffplay -v 0 -nodisp -autoexit __text_output.mp3'']"
proof -
  have a: "speak (sample_env (Some 0)) ''hello'' None None (sample_world [])
     = (Returns (),
        \<lparr>files = [''__text_output.mp3'' \<mapsto> [0xFF, 0xF3, 0x44, 0xC4, 5]],
         events = [Save ''__text_output.mp3'' (Saved [0xFF, 0xF3, 0x44, 0xC4, 5]),
                   Spawned ''ffplay -v 0 -nodisp -autoexit __text_output.mp3'', Exited 0],
         stdin = []\<rparr>)"
    by (simp add: speak_def gTTS_init_def save_def os_system_def sample_env_def
        sample_rejects_def sample_service_def sample_shell_def sample_world_def
        sample_audio_def lang_or_default_def tld_or_default_def)
  have b: "gTTS_init (sample_env (Some 0)) ''hello'' (lang_or_default None) (tld_or_default None)
             = Returns \<lparr>tts_text = ''hello'', tts_lang = ''en'', tts_tld = ''''\<rparr>"
    by (simp add: gTTS_init_def sample_env_def sample_rejects_def lang_or_default_def
        tld_or_default_def)
  have c: "service (sample_env (Some 0))
             \<lparr>tts_text = ''hello'', tts_lang = ''en'', tts_tld = ''''\<rparr> ''__text_output.mp3''
           = Saved [0xFF, 0xF3, 0x44, 0xC4, 5]"
    by (simp add: sample_env_def sample_service_def sample_audio_def)
  show ?thesis
    using a b c speak_launches_player_once_unless_raised [OF surjective_pairing,
        of "sample_env (Some 0)" "''hello''" None None "sample_world []"]
    by blast
qed

text \<open>
  C4. Two calls of \<open>speak\<close> in succession, the second started in the state the first
  left (however the first went, and whatever it wrote): when the second call's request is
  accepted and the service returns audio for it, the file \<open>__text_output.mp3\<close> afterwards
  holds exactly that audio, nothing of what it held before; no other file has changed in
  the second call.
\<close>

theorem second_speak_overwrites_output:
  assumes "speak env1 text1 lang_arg1 tld_arg1 w = (r1, w1)"
      and "gTTS_init env2 text2 (lang_or_default lang_arg2) (tld_or_default tld_arg2) = Returns tts2"
      and "service env2 tts2 ''__text_output.mp3'' = Saved audio2"
      and "speak env2 text2 lang_arg2 tld_arg2 w1 = (r2, w2)"
  shows "files w2 ''__text_output.mp3'' = Some audio2
       \<and> (\<forall>p. p \<noteq> ''__text_output.mp3'' \<longrightarrow> files w2 p = files w1 p)"
  using assms(4)
  by (cases rule: speak_outcomes) (use assms(2,3) in simp_all)

theorem second_speak_overwrites_output_witness:
  "files (snd (speak (sample_env (Some 0)) ''hello'' None None (sample_world [])))
       ''__text_output.mp3''
     = Some [0xFF, 0xF3, 0x44, 0xC4, 5]
   \<and> files (snd (speak (sample_env (Some 0)) ''bonjour'' (Some ''fr'') (Some ''fr'')
        (snd (speak (sample_env (Some 0)) ''hello'' None None (sample_world [])))))
       ''__text_output.mp3''
     = Some [0xFF, 0xF3, 0x44, 0xC4, 7]"
proof -
  let ?tts = "\<lparr>tts_text = ''bonjour'', tts_lang = ''fr'', tts_tld = ''fr''\<rparr>"
  have a: "files (snd (speak (sample_env (Some 0)) ''hello'' None None (sample_world [])))
       ''__text_output.mp3'' = Some [0xFF, 0xF3, 0x44, 0xC4, 5]"
    by (simp add: speak_def gTTS_init_def save_def os_system_def sample_env_def
        sample_rejects_def sample_service_def sample_shell_def sample_world_def
        sample_audio_def lang_or_default_def tld_or_default_def)
  have b: "gTTS_init (sample_env (Some 0)) ''bonjour'' (lang_or_default (Some ''fr''))
             (tld_or_default (Some ''fr'')) = Returns ?tts"
    by (simp add: gTTS_init_def sample_env_def sample_rejects_def lang_or_default_def
        tld_or_default_def)
  have c: "service (sample_env (Some 0)) ?tts ''__text_output.mp3''
             = Saved [0xFF, 0xF3, 0x44, 0xC4, 7]"
    by (simp add: sample_env_def sample_service_def sample_audio_def)
  show ?thesis
    using a second_speak_overwrites_output [OF surjective_pairing b c surjective_pairing,
        of "sample_env (Some 0)" "''hello''" None None "sample_world []"]
    by blast
qed

section \<open>The player's exit status\<close>

text \<open>
  C5 as stated fails. With no \<open>ffplay\<close> on the search path the shell ends with status 127,
  which \<open>os.system\<close> returns as the wait status 32512. \<open>speak\<close> drops that value: the
  program raises nothing, runs to its end and exits with code 0, not with 32512.
\<close>

theorem missing_player_exit_code_counterexample:
  "Exited 32512 \<in> set (events (snd (main (sample_env (Some 32512)) (sample_world [''bonjour'']))))
   \<and> fst (main (sample_env (Some 32512)) (sample_world [''bonjour''])) = Returns ()
   \<and> exit_code (fst (main (sample_env (Some 32512)) (sample_world [''bonjour'']))) = Some 0"
  by (simp add: main_def input_def speak_def gTTS_init_def save_def os_system_def
      sample_env_def sample_rejects_def sample_service_def sample_shell_def sample_world_def
      lang_or_default_def tld_or_default_def exit_code_def)

text \<open>
  C5, amended. When the request is accepted and saved and the player process ends with any
  status, zero or not (a missing executable included), \<open>os.system\<close> returns that status
  and \<open>speak\<close> discards it: \<open>speak\<close> raises nothing and returns normally, and the
  program's exit code is 0. The status appears in the log only.
\<close>

theorem player_status_is_discarded:
  assumes "stdin w = line # rest"
      and "gTTS_init env line ''fr'' ''fr'' = Returns tts"
      and "service env tts ''__text_output.mp3'' = Saved audio"
      and "shell env ''ffplay -v 0 -nodisp -autoexit __text_output.mp3''
             ((files w)(''__text_output.mp3'' \<mapsto> audio)) = Some status"
  shows "fst (speak env line (Some ''fr'') (Some ''fr'') (w\<lparr>stdin := rest\<rparr>)) = Returns ()
       \<and> fst (main env w) = Returns ()
       \<and> exit_code (fst (main env w)) = Some 0
       \<and> last (events (snd (main env w))) = Exited status"
  using assms
  by (simp add: main_def input_def speak_def save_def os_system_def lang_or_default_def
      tld_or_default_def exit_code_def)

theorem player_status_is_discarded_witness:
  "stdin (sample_world [''bonjour'']) = [''bonjour'']
   \<and> shell (sample_env (Some 32512)) ''ffplay -v 0 -nodisp -autoexit __text_output.mp3''
        ((files (sample_world [''bonjour'']))
           (''__text_output.mp3'' \<mapsto> [0xFF, 0xF3, 0x44, 0xC4, 7])) = Some 32512
   \<and> exit_code (fst (main (sample_env (Some 32512)) (sample_world [''bonjour'']))) = Some 0"
proof -
  let ?tts = "\<lparr>tts_text = ''bonjour'', tts_lang = ''fr'', tts_tld = ''fr''\<rparr>"
  have a: "stdin (sample_world [''bonjour'']) = ''bonjour'' # []"
    by (simp add: sample_world_def)
  have b: "gTTS_init (sample_env (Some 32512)) ''bonjour'' ''fr'' ''fr'' = Returns ?tts"
    by (simp add: gTTS_init_def sample_env_def sample_rejects_def)
  have c: "service (sample_env (Some 32512)) ?tts ''__text_output.mp3''
             = Saved [0xFF, 0xF3, 0x44, 0xC4, 7]"
    by (simp add: sample_env_def sample_service_def sample_audio_def)
  have d: "shell (sample_env (Some 32512)) ''ffplay -v 0 -nodisp -autoexit __text_output.mp3''
        ((files (sample_world [''bonjour'']))
           (''__text_output.mp3'' \<mapsto> [0xFF, 0xF3, 0x44, 0xC4, 7])) = Some 32512"
    by (simp add: sample_env_def sample_shell_def)
  show ?thesis
    using a d player_status_is_discarded [OF a b c d]
    by (simp add: exit_code_def)
qed

section \<open>The entry point and the defaults\<close>

text \<open>
  C6. Run directly with a line on standard input, the program reads exactly that one line
  (the lines after it are left unread) and calls \<open>speak\<close> on it with language \<open>fr\<close> and
  domain \<open>fr\<close>: it is with the line, \<open>fr\<close> and \<open>fr\<close> that the library's constructor is
  asked, and the request that is saved has exactly these three fields. \<open>speak\<close> itself
  takes language \<open>en\<close> and the empty domain for the arguments that are omitted: with both
  left out the constructor is asked with the text, \<open>en\<close> and the empty string, and the
  request that is saved has these fields.
\<close>

theorem main_reads_one_line_and_speaks_fr:
  assumes "stdin w = line # rest"
  shows "main env w = speak env line (Some ''fr'') (Some ''fr'') (w\<lparr>stdin := rest\<rparr>)
       \<and> stdin (snd (main env w)) = rest
       \<and> (\<forall>e. rejects env line ''fr'' ''fr'' = Some e
            \<longrightarrow> main env w = (Raises e, w\<lparr>stdin := rest\<rparr>))
       \<and> (rejects env line ''fr'' ''fr'' = None
            \<longrightarrow> (\<exists>es. new_events w (snd (main env w)) =
                  Save ''__text_output.mp3''
                    (service env \<lparr>tts_text = line, tts_lang = ''fr'', tts_tld = ''fr''\<rparr>
                       ''__text_output.mp3'') # es))
       \<and> (\<forall>e. rejects env text ''en'' '''' = Some e
            \<longrightarrow> speak env text None None w0 = (Raises e, w0))
       \<and> (rejects env text ''en'' '''' = None
            \<longrightarrow> (\<exists>es. new_events w0 (snd (speak env text None None w0)) =
                  Save ''__text_output.mp3''
                    (service env \<lparr>tts_text = text, tts_lang = ''en'', tts_tld = ''''\<rparr>
                       ''__text_output.mp3'') # es))
       \<and> (\<forall>e. rejects env text lang '''' = Some e
            \<longrightarrow> speak env text (Some lang) None w0 = (Raises e, w0))
       \<and> (\<forall>e. rejects env text ''en'' tld = Some e
            \<longrightarrow> speak env text None (Some tld) w0 = (Raises e, w0))
       \<and> speak env text None None w0 = speak env text (Some ''en'') (Some '''') w0
       \<and> speak env text (Some lang) None w0 = speak env text (Some lang) (Some '''') w0
       \<and> speak env text None (Some tld) w0 = speak env text (Some ''en'') (Some tld) w0"
proof -
  let ?w = "w\<lparr>stdin := rest\<rparr>"
  have m: "main env w = speak env line (Some ''fr'') (Some ''fr'') ?w"
    using assms by (simp add: main_def input_def)
  obtain r w' where s: "speak env line (Some ''fr'') (Some ''fr'') ?w = (r, w')"
    by (cases "speak env line (Some ''fr'') (Some ''fr'') ?w")
  from s have t: "stdin w' = rest"
    by (cases rule: speak_outcomes) simp_all
  have a: "rejects env line ''fr'' ''fr'' = Some e \<Longrightarrow> main env w = (Raises e, ?w)" for e
    using speak_refused [of env line "Some ''fr''" "Some ''fr''" e ?w] m
    by (simp add: lang_or_default_def tld_or_default_def)
  have b: "rejects env line ''fr'' ''fr'' = None \<Longrightarrow>
      \<exists>es. new_events w (snd (main env w)) =
        Save ''__text_output.mp3''
          (service env \<lparr>tts_text = line, tts_lang = ''fr'', tts_tld = ''fr''\<rparr>
             ''__text_output.mp3'') # es"
    using speak_accepted_saves_request [of env line "Some ''fr''" "Some ''fr''" ?w] m
    by (simp add: lang_or_default_def tld_or_default_def new_events_def)
  have c: "rejects env text ''en'' '''' = Some e \<Longrightarrow> speak env text None None w0 = (Raises e, w0)"
    for e
    using speak_refused [of env "text" None None e w0]
    by (simp add: lang_or_default_def tld_or_default_def)
  have d: "rejects env text ''en'' '''' = None \<Longrightarrow>
      \<exists>es. new_events w0 (snd (speak env text None None w0)) =
        Save ''__text_output.mp3''
          (service env \<lparr>tts_text = text, tts_lang = ''en'', tts_tld = ''''\<rparr>
             ''__text_output.mp3'') # es"
    using speak_accepted_saves_request [of env "text" None None w0]
    by (simp add: lang_or_default_def tld_or_default_def)
  have e: "rejects env text lang '''' = Some e \<Longrightarrow>
      speak env text (Some lang) None w0 = (Raises e, w0)" for e
    using speak_refused [of env "text" "Some lang" None e w0]
    by (simp add: lang_or_default_def tld_or_default_def)
  have f: "rejects env text ''en'' tld = Some e \<Longrightarrow>
      speak env text None (Some tld) w0 = (Raises e, w0)" for e
    using speak_refused [of env "text" None "Some tld" e w0]
    by (simp add: lang_or_default_def tld_or_default_def)
  have g: "speak env text None None w0 = speak env text (Some ''en'') (Some '''') w0"
      "speak env text (Some lang) None w0 = speak env text (Some lang) (Some '''') w0"
      "speak env text None (Some tld) w0 = speak env text (Some ''en'') (Some tld) w0"
    by (simp_all add: speak_def lang_or_default_def tld_or_default_def)
  have u: "stdin (snd (main env w)) = rest"
    using m s t by simp
  show ?thesis
    using m u a b c d e f g by blast
qed

theorem main_reads_one_line_and_speaks_fr_witness:
  "stdin (sample_world [''bonjour'', ''au revoir'']) = [''bonjour'', ''au revoir'']
   \<and> main (sample_env (Some 0)) (sample_world [''bonjour'', ''au revoir''])
     = speak (sample_env (Some 0)) ''bonjour'' (Some ''fr'') (Some ''fr'')
         (sample_world [''au revoir''])
   \<and> stdin (snd (main (sample_env (Some 0)) (sample_world [''bonjour'', ''au revoir''])))
     = [''au revoir'']
   \<and> (\<exists>es. new_events (sample_world [''bonjour'', ''au revoir''])
         (snd (main (sample_env (Some 0)) (sample_world [''bonjour'', ''au revoir'']))) =
       Save ''__text_output.mp3''
         (service (sample_env (Some 0))
            \<lparr>tts_text = ''bonjour'', tts_lang = ''fr'', tts_tld = ''fr''\<rparr>
            ''__text_output.mp3'') # es)"
proof -
  have a: "stdin (sample_world [''bonjour'', ''au revoir'']) = ''bonjour'' # [''au revoir'']"
    by (simp add: sample_world_def)
  have b: "(sample_world [''bonjour'', ''au revoir''])\<lparr>stdin := [''au revoir'']\<rparr>
             = sample_world [''au revoir'']"
    by (simp add: sample_world_def)
  have c: "rejects (sample_env (Some 0)) ''bonjour'' ''fr'' ''fr'' = None"
    by (simp add: sample_env_def sample_rejects_def)
  show ?thesis
    using a c main_reads_one_line_and_speaks_fr [OF a, of "sample_env (Some 0)" "''hello''"
        "sample_world []" "''en''" "''com''", unfolded b]
    by blast
qed

section \<open>The scenario of the spec\<close>

text \<open>
  C7 as stated fails: the scenario gives the text, the language and the domain, not the
  answer of the service. When the service cannot be reached, \<open>speak\<close> on \<open>hello\<close>,
  \<open>en\<close> and the empty domain raises, leaves a file of length zero and launches no player.
\<close>

theorem hello_offline_counterexample:
  "fst (speak offline_env ''hello'' (Some ''en'') (Some '''') (sample_world []))
     = Raises gTTSError
   \<and> files (snd (speak offline_env ''hello'' (Some ''en'') (Some '''') (sample_world [])))
        ''__text_output.mp3'' = Some []
   \<and> commands (new_events (sample_world [])
        (snd (speak offline_env ''hello'' (Some ''en'') (Some '''') (sample_world [])))) = []"
  by (simp add: speak_def gTTS_init_def save_def offline_env_def sample_rejects_def
      offline_service_def sample_world_def lang_or_default_def tld_or_default_def
      new_events_def)

text \<open>
  C7, amended. \<open>speak\<close> on the text \<open>hello\<close>, language \<open>en\<close>, domain the empty string,
  when the library accepts the request and the save completes: the file
  \<open>__text_output.mp3\<close> holds exactly the audio that the service returned (of non-zero
  length exactly when that audio is), then the player is launched; its arguments are the
  three flags \<open>-v 0\<close>, \<open>-nodisp\<close>, \<open>-autoexit\<close> and, last, the path that was just
  written. Leaving both optional arguments out is the same call.
\<close>

theorem speak_hello_en:
  assumes "gTTS_init env ''hello'' ''en'' '''' = Returns tts"
      and "service env tts ''__text_output.mp3'' = Saved audio"
      and "speak env ''hello'' (Some ''en'') (Some '''') w = (r, w')"
  shows "tts = \<lparr>tts_text = ''hello'', tts_lang = ''en'', tts_tld = ''''\<rparr>
       \<and> (\<exists>rest. new_events w w' =
            Save ''__text_output.mp3'' (Saved audio)
              # Spawned ''ffplay -v 0 -nodisp -autoexit __text_output.mp3'' # rest)
       \<and> files w' ''__text_output.mp3'' = Some audio
       \<and> ((\<exists>content. files w' ''__text_output.mp3'' = Some content \<and> 0 < length content)
            \<longleftrightarrow> 0 < length audio)
       \<and> argv ''ffplay -v 0 -nodisp -autoexit __text_output.mp3''
           = [''ffplay'', ''-v'', ''0'', ''-nodisp'', ''-autoexit'', ''__text_output.mp3'']
       \<and> last (argv ''ffplay -v 0 -nodisp -autoexit __text_output.mp3'') = ''__text_output.mp3''
       \<and> speak env ''hello'' None None w = (r, w')"
proof -
  have d: "speak env ''hello'' None None w = (r, w')"
    using assms(3) by (simp add: speak_def lang_or_default_def tld_or_default_def)
  have i: "gTTS_init env ''hello'' (lang_or_default (Some ''en'')) (tld_or_default (Some ''''))
             = Returns tts"
    using assms(1) by (simp add: lang_or_default_def tld_or_default_def)
  have t: "tts = \<lparr>tts_text = ''hello'', tts_lang = ''en'', tts_tld = ''''\<rparr>"
    using assms(1) by (simp add: gTTS_init_def split: option.splits)
  from assms(3) have "(\<exists>rest. new_events w w' =
            Save ''__text_output.mp3'' (Saved audio)
              # Spawned ''ffplay -v 0 -nodisp -autoexit __text_output.mp3'' # rest)
       \<and> files w' ''__text_output.mp3'' = Some audio"
    by (cases rule: speak_outcomes) (use i assms(2) in simp_all)
  with d t show ?thesis
    by (simp add: argv_player)
qed

theorem speak_hello_en_witness:
  "gTTS_init (sample_env (Some 0)) ''hello'' ''en'' ''''
     = Returns \<lparr>tts_text = ''hello'', tts_lang = ''en'', tts_tld = ''''\<rparr>
   \<and> service (sample_env (Some 0))
        \<lparr>tts_text = ''hello'', tts_lang = ''en'', tts_tld = ''''\<rparr> ''__text_output.mp3''
     = Saved [0xFF, 0xF3, 0x44, 0xC4, 5]
   \<and> new_events (sample_world [])
        (snd (speak (sample_env (Some 0)) ''hello'' (Some ''en'') (Some '''') (sample_world [])))
     = [Save ''__text_output.mp3'' (Saved [0xFF, 0xF3, 0x44, 0xC4, 5]),
        Spawned ''ffplay -v 0 -nodisp -autoexit __text_output.mp3'', Exited 0]
   \<and> files (snd (speak (sample_env (Some 0)) ''hello'' (Some ''en'') (Some '''')
         (sample_world []))) ''__text_output.mp3'' = Some [0xFF, 0xF3, 0x44, 0xC4, 5]"
proof -
  let ?tts = "\<lparr>tts_text = ''hello'', tts_lang = ''en'', tts_tld = ''''\<rparr>"
  have a: "gTTS_init (sample_env (Some 0)) ''hello'' ''en'' '''' = Returns ?tts"
    by (simp add: gTTS_init_def sample_env_def sample_rejects_def)
  have b: "service (sample_env (Some 0)) ?tts ''__text_output.mp3''
             = Saved [0xFF, 0xF3, 0x44, 0xC4, 5]"
    by (simp add: sample_env_def sample_service_def sample_audio_def)
  have d: "new_events (sample_world [])
        (snd (speak (sample_env (Some 0)) ''hello'' (Some ''en'') (Some '''') (sample_world [])))
     = [Save ''__text_output.mp3'' (Saved [0xFF, 0xF3, 0x44, 0xC4, 5]),
        Spawned ''ffplay -v 0 -nodisp -autoexit __text_output.mp3'', Exited 0]"
    by (simp add: speak_def gTTS_init_def save_def os_system_def sample_env_def
        sample_rejects_def sample_service_def sample_shell_def sample_world_def
        sample_audio_def lang_or_default_def tld_or_default_def new_events_def)
  show ?thesis
    using a b d speak_hello_en [OF a b surjective_pairing, of "sample_world []"]
    by blast
qed

section \<open>Failures\<close>

text \<open>
  C8. No step of \<open>speak\<close> is caught, retried or recovered from.
  \<^item> A request that the library refuses at construction (an unsupported language code)
    makes \<open>speak\<close> raise the library's own exception and leaves the world as it was: no
    file is written, so no empty file either.
  \<^item> A save that raises makes \<open>speak\<close> raise that same exception, in the state the save
    left, after one single attempt and with nothing done after it.
  \<^item> A player that ends, with whatever status (a failure included), is launched once:
    the whole call is one save, one launch and that one exit, and nothing is saved or
    launched again. A player that never ends is launched once and nothing follows.
  In every case the call has at most one save and at most one launch.
\<close>

theorem failures_propagate_unhandled:
  assumes "speak env text lang_arg tld_arg w = (r, w')"
  shows "(\<forall>e. rejects env text (lang_or_default lang_arg) (tld_or_default tld_arg) = Some e
            \<longrightarrow> r = Raises e \<and> w' = w \<and> files w' = files w \<and> new_events w w' = [])
       \<and> (\<forall>tts e w1.
             gTTS_init env text (lang_or_default lang_arg) (tld_or_default tld_arg) = Returns tts
           \<and> save env tts ''__text_output.mp3'' w = (Raises e, w1)
            \<longrightarrow> r = Raises e \<and> w' = w1
              \<and> new_events w w' = [Save ''__text_output.mp3'' (service env tts ''__text_output.mp3'')])
       \<and> (\<forall>tts audio status.
             gTTS_init env text (lang_or_default lang_arg) (tld_or_default tld_arg) = Returns tts
           \<and> service env tts ''__text_output.mp3'' = Saved audio
           \<and> shell env ''ffplay -v 0 -nodisp -autoexit __text_output.mp3''
                ((files w)(''__text_output.mp3'' \<mapsto> audio)) = Some status
            \<longrightarrow> r = Returns ()
              \<and> new_events w w' =
                  [Save ''__text_output.mp3'' (Saved audio),
                   Spawned ''ffplay -v 0 -nodisp -autoexit __text_output.mp3'', Exited status]
              \<and> files w' = (files w)(''__text_output.mp3'' \<mapsto> audio))
       \<and> (\<forall>tts audio.
             gTTS_init env text (lang_or_default lang_arg) (tld_or_default tld_arg) = Returns tts
           \<and> service env tts ''__text_output.mp3'' = Saved audio
           \<and> shell env ''ffplay -v 0 -nodisp -autoexit __text_output.mp3''
                ((files w)(''__text_output.mp3'' \<mapsto> audio)) = None
            \<longrightarrow> r = Hangs
              \<and> new_events w w' =
                  [Save ''__text_output.mp3'' (Saved audio),
                   Spawned ''ffplay -v 0 -nodisp -autoexit __text_output.mp3''])
       \<and> length (saves (new_events w w')) \<le> 1
       \<and> length (commands (new_events w w')) \<le> 1"
  using assms
  by (cases rule: speak_outcomes)
     (auto simp: gTTS_init_def save_def Let_def split: option.splits)

theorem failures_propagate_unhandled_witness:
  "rejects (sample_env (Some 0)) ''hello'' (lang_or_default (Some ''xx'')) (tld_or_default None)
     = Some ValueError
   \<and> speak (sample_env (Some 0)) ''hello'' (Some ''xx'') None (sample_world [])
     = (Raises ValueError, sample_world [])
   \<and> shell (sample_env (Some 32512)) ''ffplay -v 0 -nodisp -autoexit __text_output.mp3''
        ((files (sample_world []))(''__text_output.mp3'' \<mapsto> [0xFF, 0xF3, 0x44, 0xC4, 5]))
     = Some 32512
   \<and> new_events (sample_world [])
        (snd (speak (sample_env (Some 32512)) ''hello'' None None (sample_world [])))
     = [Save ''__text_output.mp3'' (Saved [0xFF, 0xF3, 0x44, 0xC4, 5]),
        Spawned ''ffplay -v 0 -nodisp -autoexit __text_output.mp3'', Exited 32512]"
proof -
  let ?tts = "\<lparr>tts_text = ''hello'', tts_lang = ''en'', tts_tld = ''''\<rparr>"
  have a: "rejects (sample_env (Some 0)) ''hello'' (lang_or_default (Some ''xx''))
             (tld_or_default None) = Some ValueError"
    by (simp add: sample_env_def sample_rejects_def lang_or_default_def)
  have b: "gTTS_init (sample_env (Some 32512)) ''hello'' (lang_or_default None)
             (tld_or_default None) = Returns ?tts"
    by (simp add: gTTS_init_def sample_env_def sample_rejects_def lang_or_default_def
        tld_or_default_def)
  have c: "service (sample_env (Some 32512)) ?tts ''__text_output.mp3''
             = Saved [0xFF, 0xF3, 0x44, 0xC4, 5]"
    by (simp add: sample_env_def sample_service_def sample_audio_def)
  have d: "shell (sample_env (Some 32512)) ''ffplay -v 0 -nodisp -autoexit __text_output.mp3''
        ((files (sample_world []))(''__text_output.mp3'' \<mapsto> [0xFF, 0xF3, 0x44, 0xC4, 5]))
     = Some 32512"
    by (simp add: sample_env_def sample_shell_def)
  have e: "speak (sample_env (Some 0)) ''hello'' (Some ''xx'') None (sample_world [])
     = (Raises ValueError, sample_world [])"
    using a failures_propagate_unhandled [OF surjective_pairing,
        of "sample_env (Some 0)" "''hello''" "Some ''xx''" None "sample_world []"]
    by (metis prod.collapse)
  have f: "new_events (sample_world [])
        (snd (speak (sample_env (Some 32512)) ''hello'' None None (sample_world [])))
     = [Save ''__text_output.mp3'' (Saved [0xFF, 0xF3, 0x44, 0xC4, 5]),
        Spawned ''ffplay -v 0 -nodisp -autoexit __text_output.mp3'', Exited 32512]"
    using b c d failures_propagate_unhandled [OF surjective_pairing,
        of "sample_env (Some 32512)" "''hello''" None None "sample_world []"]
    by blast
  show ?thesis
    using a d e f by blast
qed

text \<open>
  C9. Take any two calls of \<open>speak\<close>, with any texts, languages, domains, environments and
  starting states. Every command line that either call hands to the shell is the same
  constant string; the text and the other arguments never reach it.
\<close>

theorem player_command_is_constant:
  assumes "speak env1 text1 lang_arg1 tld_arg1 w1 = (r1, w1')"
      and "speak env2 text2 lang_arg2 tld_arg2 w2 = (r2, w2')"
      and "c1 \<in> set (commands (new_events w1 w1'))"
      and "c2 \<in> set (commands (new_events w2 w2'))"
  shows "c1 = c2 \<and> c1 = ''ffplay -v 0 -nodisp -autoexit __text_output.mp3''"
proof -
  have "c1 = ''ffplay -v 0 -nodisp -autoexit __text_output.mp3''"
    using assms(1)
    by (cases rule: speak_outcomes) (use assms(3) in simp_all)
  moreover have "c2 = ''ffplay -v 0 -nodisp -autoexit __text_output.mp3''"
    using assms(2)
    by (cases rule: speak_outcomes) (use assms(4) in simp_all)
  ultimately show ?thesis
    by simp
qed

theorem player_command_is_constant_witness:
  "commands (new_events (sample_world [])
      (snd (speak (sample_env (Some 0)) ''hello'' None None (sample_world []))))
     = [''ffplay -v 0 -nodisp -autoexit __text_output.mp3'']
   \<and> commands (new_events (sample_world [''x''])
      (snd (speak (sample_env None) ''; rm -rf ~'' (Some ''fr'') (Some ''fr'')
         (sample_world [''x'']))))
     = [''ffplay -v 0 -nodisp -autoexit __text_output.mp3'']"
proof -
  let ?c = "''ffplay -v 0 -nodisp -autoexit __text_output.mp3''"
  have a: "?c \<in> set (commands (new_events (sample_world [])
      (snd (speak (sample_env (Some 0)) ''hello'' None None (sample_world [])))))"
    by (simp add: speak_def gTTS_init_def save_def os_system_def sample_env_def
        sample_rejects_def sample_service_def sample_shell_def sample_world_def
        lang_or_default_def tld_or_default_def new_events_def)
  have b: "commands (new_events (sample_world [''x''])
      (snd (speak (sample_env None) ''; rm -rf ~'' (Some ''fr'') (Some ''fr'')
         (sample_world [''x''])))) = [hd (commands (new_events (sample_world [''x''])
      (snd (speak (sample_env None) ''; rm -rf ~'' (Some ''fr'') (Some ''fr'')
         (sample_world [''x''])))))]"
    by (simp add: speak_def gTTS_init_def save_def os_system_def sample_env_def
        sample_rejects_def sample_service_def sample_shell_def sample_world_def
        lang_or_default_def tld_or_default_def new_events_def)
  have c: "commands (new_events (sample_world [])
      (snd (speak (sample_env (Some 0)) ''hello'' None None (sample_world [])))) = [?c]"
    by (simp add: speak_def gTTS_init_def save_def os_system_def sample_env_def
        sample_rejects_def sample_service_def sample_shell_def sample_world_def
        lang_or_default_def tld_or_default_def new_events_def)
  have d: "hd (commands (new_events (sample_world [''x''])
      (snd (speak (sample_env None) ''; rm -rf ~'' (Some ''fr'') (Some ''fr'')
         (sample_world [''x''])))))
       \<in> set (commands (new_events (sample_world [''x''])
      (snd (speak (sample_env None) ''; rm -rf ~'' (Some ''fr'') (Some ''fr'')
         (sample_world [''x''])))))"
    using b by (metis list.set_intros(1))
  show ?thesis
    using b c player_command_is_constant [OF surjective_pairing surjective_pairing a d]
    by simp
qed

text \<open>
  C10. When constructing the request raises, or the save raises, \<open>speak\<close> raises and no
  player is spawned during the call. When it is the construction that raises, the world is
  left exactly as it was: \<open>__text_output.mp3\<close> is not written, and a file of that name
  from an earlier run keeps its content.
\<close>

theorem no_player_after_failed_step:
  assumes "speak env text lang_arg tld_arg w = (r, w')"
      and "(\<exists>e. gTTS_init env text (lang_or_default lang_arg) (tld_or_default tld_arg) = Raises e)
         \<or> (\<exists>tts e.
              gTTS_init env text (lang_or_default lang_arg) (tld_or_default tld_arg) = Returns tts
            \<and> fst (save env tts ''__text_output.mp3'' w) = Raises e)"
  shows "(\<forall>c. Spawned c \<notin> set (new_events w w'))
       \<and> commands (new_events w w') = []
       \<and> (\<exists>e. r = Raises e)
       \<and> ((\<exists>e. gTTS_init env text (lang_or_default lang_arg) (tld_or_default tld_arg) = Raises e)
            \<longrightarrow> w' = w \<and> new_events w w' = []
              \<and> files w' ''__text_output.mp3'' = files w ''__text_output.mp3'')"
  using assms(1)
  by (cases rule: speak_outcomes) (use assms(2) in \<open>auto simp: save_def\<close>)

theorem no_player_after_failed_step_witness:
  "gTTS_init (sample_env (Some 0)) '''' (lang_or_default None) (tld_or_default None)
     = Raises AssertionError
   \<and> files ((sample_world [])\<lparr>files := [''__text_output.mp3'' \<mapsto> [1, 2, 3]]\<rparr>)
       ''__text_output.mp3'' = Some [1, 2, 3]
   \<and> files (snd (speak (sample_env (Some 0)) '''' None None
        ((sample_world [])\<lparr>files := [''__text_output.mp3'' \<mapsto> [1, 2, 3]]\<rparr>)))
       ''__text_output.mp3'' = Some [1, 2, 3]
   \<and> commands (new_events ((sample_world [])\<lparr>files := [''__text_output.mp3'' \<mapsto> [1, 2, 3]]\<rparr>)
        (snd (speak (sample_env (Some 0)) '''' None None
          ((sample_world [])\<lparr>files := [''__text_output.mp3'' \<mapsto> [1, 2, 3]]\<rparr>)))) = []"
proof -
  have a: "gTTS_init (sample_env (Some 0)) '''' (lang_or_default None) (tld_or_default None)
             = Raises AssertionError"
    by (simp add: gTTS_init_def sample_env_def sample_rejects_def)
  have b: "files ((sample_world [])\<lparr>files := [''__text_output.mp3'' \<mapsto> [1, 2, 3]]\<rparr>)
       ''__text_output.mp3'' = Some [1, 2, 3]"
    by simp
  have c: "(\<exists>e. gTTS_init (sample_env (Some 0)) '''' (lang_or_default None) (tld_or_default None)
               = Raises e)
         \<or> (\<exists>tts e.
              gTTS_init (sample_env (Some 0)) '''' (lang_or_default None) (tld_or_default None)
                = Returns tts
            \<and> fst (save (sample_env (Some 0)) tts ''__text_output.mp3''
                 ((sample_world [])\<lparr>files := [''__text_output.mp3'' \<mapsto> [1, 2, 3]]\<rparr>))
                = Raises e)"
    using a by blast
  show ?thesis
    using a b no_player_after_failed_step [OF surjective_pairing c]
    by metis
qed

end
